theory Spec2Isabelle
  imports Complex_Main
begin

section \<open>JavaScript values used by both components\<close>

text \<open>
  Strings are lists of code units. \<open>String.prototype.trim\<close> removes white space and line
  terminators from both ends; of those, the code units that fit a \<^typ>\<open>char\<close> are
  TAB, LF, VT, FF, CR, SP and NBSP.
\<close>

definition js_whitespace :: "char \<Rightarrow> bool" where
  "js_whitespace c = ((of_char c :: nat) \<in> {9, 10, 11, 12, 13, 32, 160})"

definition js_trim :: "string \<Rightarrow> string" where
  "js_trim s = rev (dropWhile js_whitespace (rev (dropWhile js_whitespace s)))"

text \<open>
  \<open>x || d\<close> on a value that is a string, \<open>null\<close> or \<open>undefined\<close>: the empty string is
  falsy too. On a number, 0 is falsy.
\<close>

definition js_or_str :: "string option \<Rightarrow> string \<Rightarrow> string" where
  "js_or_str x d = (case x of None \<Rightarrow> d | Some s \<Rightarrow> if s = [] then d else s)"

definition js_or_num :: "int option \<Rightarrow> int \<Rightarrow> int" where
  "js_or_num x d = (case x of None \<Rightarrow> d | Some n \<Rightarrow> if n = 0 then d else n)"

section \<open>Completion Relay: the \<open>POST\<close> handler of the chat route\<close>

subsection \<open>Data\<close>

text \<open>A JSON object literal handed to \<open>NextResponse.json\<close>: its keys in order.\<close>

datatype jvalue = JBool bool | JNumber int | JString string

type_synonym jobject = "(string \<times> jvalue) list"

record http_reply =
  status :: nat
  body :: jobject

text \<open>\<open>NextResponse.json(obj, init)\<close>: the status is 200 unless \<open>init\<close> gives one.\<close>

definition NextResponse_json :: "jobject \<Rightarrow> nat option \<Rightarrow> http_reply" where
  "NextResponse_json obj init =
     \<lparr>status = (case init of None \<Rightarrow> 200 | Some s \<Rightarrow> s), body = obj\<rparr>"

text \<open>
  A form entry is a string or a file; reading a file (\<open>arrayBuffer\<close>) gives its bytes or
  throws. A thrown error is the \<open>Inl\<close> of a sum, carrying \<open>error.message\<close>.
\<close>

datatype form_entry = FormString string | FormFile "string + nat list"

record form_data =
  messages_entry :: "form_entry option"
  image_entry :: "form_entry option"

record request =
  formData :: "string + form_data"

text \<open>The provider's completion, with the fields the handler reads.\<close>

record completion_message =
  text_content :: "string option"

record choice =
  message :: "completion_message option"

record completion_usage =
  total_tokens :: int

record completion =
  choices :: "choice list option"
  usage :: "completion_usage option"
  model :: string

text \<open>
  One call of the external provider: the client built by \<open>new Groq\<close> and the parameters
  of \<open>chat.completions.create\<close>. The handler never looks into the parsed messages, so
  their type is a parameter.
\<close>

record 'p provider_call =
  apiKey :: string
  timeout :: nat
  call_messages :: 'p
  call_model :: string
  temperature :: rat

record 'p relay_result =
  reply :: http_reply
  provider_calls :: "'p provider_call list"

subsection \<open>The handler\<close>

text \<open>\<open>completion.choices?.[0]?.message?.content\<close>\<close>

definition first_choice_text :: "completion \<Rightarrow> string option" where
  "first_choice_text c =
     (case choices c of
        None \<Rightarrow> None
      | Some [] \<Rightarrow> None
      | Some (ch # _) \<Rightarrow>
          (case message ch of None \<Rightarrow> None | Some m \<Rightarrow> text_content m))"

text \<open>\<open>completion.usage?.total_tokens\<close>\<close>

definition reported_total :: "completion \<Rightarrow> int option" where
  "reported_total c = map_option total_tokens (usage c)"

text \<open>The image is read into memory when the entry is a file, and not used further.\<close>

definition read_image :: "form_entry option \<Rightarrow> string + nat list option" where
  "read_image file =
     (case file of
        Some (FormFile arrayBuffer) \<Rightarrow>
          (case arrayBuffer of Inl e \<Rightarrow> Inl e | Inr bytes \<Rightarrow> Inr (Some bytes))
      | _ \<Rightarrow> Inr None)"

text \<open>
  The body of the \<open>try\<close> block up to the provider's answer. \<open>JSON_parse\<close> and \<open>create\<close>
  are the platform's parser and the provider; each returns its value or throws.
\<close>

definition relay_try ::
  "(form_entry option \<Rightarrow> string + 'p) \<Rightarrow> ('p provider_call \<Rightarrow> string + completion) \<Rightarrow>
   string \<Rightarrow> request \<Rightarrow> (string + completion) \<times> 'p provider_call list" where
  "relay_try JSON_parse create key req =
     (case formData req of
        Inl e \<Rightarrow> (Inl e, [])
      | Inr fd \<Rightarrow>
          (case JSON_parse (messages_entry fd) of
             Inl e \<Rightarrow> (Inl e, [])
           | Inr messages \<Rightarrow>
               (case read_image (image_entry fd) of
                  Inl e \<Rightarrow> (Inl e, [])
                | Inr imageData \<Rightarrow>
                    (let call = \<lparr>apiKey = key, timeout = 15000, call_messages = messages,
                                 call_model = ''llama3-70b-8192'', temperature = 7 / 10\<rparr>
                     in (create call, [call])))))"

definition config_error_reply :: http_reply where
  "config_error_reply =
     NextResponse_json
       [(''error'', JString ''Server configuration error''),
        (''details'', JString ''API key not configured'')]
       (Some 500)"

definition success_reply :: "completion \<Rightarrow> http_reply" where
  "success_reply c =
     (let content = js_or_str (first_choice_text c) ''No response''
      in NextResponse_json
           [(''success'', JBool True),
            (''content'', JString content),
            (''tokens_used'', JNumber (js_or_num (reported_total c) 0)),
            (''model'', JString (model c))]
           None)"

definition failure_reply :: "string \<Rightarrow> http_reply" where
  "failure_reply e =
     NextResponse_json
       [(''success'', JBool False),
        (''error'', JString ''AI processing failed''),
        (''details'', JString e)]
       (Some 502)"

text \<open>
  \<open>POST\<close>: \<open>env_key\<close> is \<open>process.env.GROQ_API_KEY\<close>. The key is trimmed when present,
  and a missing or empty key is falsy.
\<close>

definition POST ::
  "(form_entry option \<Rightarrow> string + 'p) \<Rightarrow> ('p provider_call \<Rightarrow> string + completion) \<Rightarrow>
   string option \<Rightarrow> request \<Rightarrow> 'p relay_result" where
  "POST JSON_parse create env_key req =
     (case map_option js_trim env_key of
        None \<Rightarrow> \<lparr>reply = config_error_reply, provider_calls = []\<rparr>
      | Some key \<Rightarrow>
          if key = [] then \<lparr>reply = config_error_reply, provider_calls = []\<rparr>
          else
            (case relay_try JSON_parse create key req of
               (Inr c, calls) \<Rightarrow> \<lparr>reply = success_reply c, provider_calls = calls\<rparr>
             | (Inl e, calls) \<Rightarrow> \<lparr>reply = failure_reply e, provider_calls = calls\<rparr>))"

section \<open>Conversation Controller: the \<open>Tutor\<close> component of the page\<close>

subsection \<open>Data\<close>

datatype role = User | Assistant

text \<open>
  The Relay's \<open>ChatMessage\<close> has a role and a content; the Controller's \<open>Message\<close> adds the
  optional \<open>error\<close> flag (\<open>None\<close> when the field is not set).
\<close>

record chat_message =
  role :: role
  content :: string

record message = chat_message +
  error :: "bool option"

datatype image_file = File string "nat list"

text \<open>The form sent to \<open>/api/chat\<close>: the messages that are serialised, and the image.\<close>

record turn_request =
  sent_messages :: "message list"
  sent_image :: "image_file option"

text \<open>
  What the awaited \<open>fetch\<close> gives back: it rejects with an error, or resolves with a
  response whose body is read as text (\<open>response.text()\<close>) or as JSON
  (\<open>response.json()\<close>, which throws on a body that is not JSON). Of the JSON the code
  reads \<open>success\<close> (by truthiness), \<open>error\<close> and \<open>content\<close>.
\<close>

record turn_data =
  success :: bool
  data_error :: "string option"
  data_content :: "string option"

record fetch_response =
  ok :: bool
  body_text :: string
  body_json :: "string + turn_data"

datatype fetch_outcome = Rejected string | Resolved fetch_response

record utterance =
  spoken :: string
  rate :: rat
  pitch :: rat

text \<open>
  The component's state (\<open>useState\<close> and \<open>useSpeechRecognition\<close>) together with the parts
  of the platform it acts on: whether \<open>window\<close> has \<open>speechSynthesis\<close>, the synthesiser's
  utterance queue (its head is the utterance being spoken), the requests handed to
  \<open>fetch\<close>, and the number of \<open>askGroq\<close> calls suspended at their \<open>await\<close>.
\<close>

record tutor =
  input :: string
  uploadedImage :: "image_file option"
  messages :: "message list"
  isLoading :: bool
  isMounted :: bool
  transcript :: string
  listening :: bool
  browserSupportsSpeechRecognition :: bool
  hasSpeechSynthesis :: bool
  utterances :: "utterance list"
  fetches :: "turn_request list"
  awaiting :: nat

definition initial :: "bool \<Rightarrow> bool \<Rightarrow> tutor" where
  "initial recognition synthesis =
     \<lparr>input = [], uploadedImage = None, messages = [], isLoading = False, isMounted = False,
      transcript = [], listening = False, browserSupportsSpeechRecognition = recognition,
      hasSpeechSynthesis = synthesis, utterances = [], fetches = [], awaiting = 0\<rparr>"

subsection \<open>Speech output\<close>

text \<open>
  \<open>speechSynthesis.cancel()\<close> removes every utterance from the queue, the one being
  spoken included; \<open>speechSynthesis.speak(u)\<close> adds \<open>u\<close> at the end of the queue.
\<close>

definition speechSynthesis_cancel :: "utterance list \<Rightarrow> utterance list" where
  "speechSynthesis_cancel queue = []"

definition speechSynthesis_speak :: "utterance \<Rightarrow> utterance list \<Rightarrow> utterance list" where
  "speechSynthesis_speak u queue = queue @ [u]"

definition speak :: "string \<Rightarrow> tutor \<Rightarrow> tutor" where
  "speak txt st =
     (if \<not> isMounted st then st
      else if \<not> hasSpeechSynthesis st then st
      else
        st\<lparr>utterances :=
             speechSynthesis_speak \<lparr>spoken = txt, rate = 1, pitch = 1\<rparr>
               (speechSynthesis_cancel (utterances st))\<rparr>)"

subsection \<open>\<open>askGroq\<close>\<close>

text \<open>
  A handler or an effect runs with the values of the render that created it, which is
  the state at the time it runs; state setters of the form \<open>prev => ...\<close> apply to the
  state at that time too. \<open>isMounted\<close> is never reset, so the \<open>speak\<close> that \<open>askGroq\<close>
  holds is the one of the current state. The platform calls in \<open>speak\<close> and the assembly
  of the form do not throw.
\<close>

text \<open>
  \<open>askGroq\<close> up to its \<open>await fetch\<close>. The guard returns early on blank input or before
  the mount; otherwise the flag is set, the user message appended, the input cleared, the
  image (when there is one) attached and cleared, and the request handed to \<open>fetch\<close>.
\<close>

definition askGroq :: "tutor \<Rightarrow> tutor" where
  "askGroq st =
     (if js_trim (input st) = [] then st
      else if \<not> isMounted st then st
      else
        (let userMessage = \<lparr>role = User, content = input st, error = None\<rparr>;
             st1 = st\<lparr>isLoading := True\<rparr>;
             st2 = st1\<lparr>messages := messages st1 @ [userMessage]\<rparr>;
             st3 = st2\<lparr>input := []\<rparr>;
             formData = \<lparr>sent_messages = messages st @ [userMessage],
                         sent_image = uploadedImage st\<rparr>;
             st4 = (case uploadedImage st of
                      Some img \<Rightarrow> st3\<lparr>uploadedImage := None\<rparr>
                    | None \<Rightarrow> st3)
         in st4\<lparr>fetches := fetches st4 @ [formData], awaiting := Suc (awaiting st4)\<rparr>))"

text \<open>\<open>String.prototype.includes\<close>\<close>

fun js_includes :: "string \<Rightarrow> string \<Rightarrow> bool" where
  "js_includes [] needle = (needle = [])"
| "js_includes (c # cs) needle =
     (take (length needle) (c # cs) = needle \<or> js_includes cs needle)"

text \<open>
  The rest of the \<open>try\<close> block: \<open>Inl\<close> is the message of the error thrown into the
  \<open>catch\<close>, \<open>Inr\<close> the content of the assistant's message.
\<close>

definition turn_result :: "fetch_outcome \<Rightarrow> string + string" where
  "turn_result outcome =
     (case outcome of
        Rejected e \<Rightarrow> Inl e
      | Resolved response \<Rightarrow>
          if \<not> ok response then
            Inl (if js_includes (body_text response) ''<!DOCTYPE'' then ''Server error''
                 else body_text response)
          else
            (case body_json response of
               Inl e \<Rightarrow> Inl e
             | Inr data \<Rightarrow>
                 if \<not> success data then
                   Inl (js_or_str (data_error data) ''AI processing failed'')
                 else
                   Inr (js_or_str (data_content data)
                          (''I didn'' @ [CHR 0x27] @ ''t get a response''))))"

text \<open>
  \<open>askGroq\<close> from the point where the awaited \<open>fetch\<close> settles: the assistant's message
  or the flagged error message is appended and spoken, and \<open>finally\<close> clears the flag.
\<close>

definition askGroq_settled :: "fetch_outcome \<Rightarrow> tutor \<Rightarrow> tutor" where
  "askGroq_settled outcome st =
     (let st1 =
        (case turn_result outcome of
           Inr c \<Rightarrow>
             (let assistantMessage = \<lparr>role = Assistant, content = c, error = None\<rparr>
              in speak (content assistantMessage)
                   (st\<lparr>messages := messages st @ [assistantMessage]\<rparr>))
         | Inl e \<Rightarrow>
             (let errorMessage =
                    \<lparr>role = Assistant, content = ''Error: '' @ e, error = Some True\<rparr>
              in speak ''Sorry, I encountered an error''
                   (st\<lparr>messages := messages st @ [errorMessage]\<rparr>)))
      in st1\<lparr>isLoading := False, awaiting := awaiting st1 - 1\<rparr>)"

text \<open>A whole turn with nothing else happening between the submission and the answer.\<close>

definition submitted :: "tutor \<Rightarrow> bool" where
  "submitted st = (js_trim (input st) \<noteq> [] \<and> isMounted st)"

definition turn :: "fetch_outcome \<Rightarrow> tutor \<Rightarrow> tutor" where
  "turn outcome st = (if submitted st then askGroq_settled outcome (askGroq st) else st)"

subsection \<open>Handlers and effects\<close>

text \<open>The mount effect, and its cleanup.\<close>

definition mount_effect :: "tutor \<Rightarrow> tutor" where
  "mount_effect st = st\<lparr>isMounted := True\<rparr>"

definition mount_cleanup :: "tutor \<Rightarrow> tutor" where
  "mount_cleanup st =
     (if hasSpeechSynthesis st then st\<lparr>utterances := speechSynthesis_cancel (utterances st)\<rparr>
      else st)"

text \<open>The main view is rendered once mounted, in a browser with speech recognition.\<close>

definition view_rendered :: "tutor \<Rightarrow> bool" where
  "view_rendered st = (isMounted st \<and> browserSupportsSpeechRecognition st)"

definition handleImageUpload :: "image_file list \<Rightarrow> tutor \<Rightarrow> tutor" where
  "handleImageUpload files st =
     (case files of [] \<Rightarrow> st | f # rest \<Rightarrow> st\<lparr>uploadedImage := Some f\<rparr>)"

text \<open>\<open>stopListening\<close>, or \<open>startListening\<close> followed by \<open>resetTranscript\<close>.\<close>

definition handleVoice :: "tutor \<Rightarrow> tutor" where
  "handleVoice st =
     (if listening st then st\<lparr>listening := False\<rparr>
      else st\<lparr>listening := True, transcript := []\<rparr>)"

text \<open>The text field: disabled while loading.\<close>

definition onChange :: "string \<Rightarrow> tutor \<Rightarrow> tutor" where
  "onChange v st = (if isLoading st then st else st\<lparr>input := v\<rparr>)"

definition onKeyDown :: "string \<Rightarrow> tutor \<Rightarrow> tutor" where
  "onKeyDown key st =
     (if isLoading st then st
      else if key = ''Enter'' \<and> \<not> isLoading st then askGroq st
      else st)"

text \<open>The voice button: disabled while loading.\<close>

definition onClick_voice :: "tutor \<Rightarrow> tutor" where
  "onClick_voice st = (if isLoading st then st else handleVoice st)"

text \<open>The submit button: disabled while loading or on blank input.\<close>

definition onClick_ask :: "tutor \<Rightarrow> tutor" where
  "onClick_ask st =
     (if isLoading st then st
      else if js_trim (input st) = [] then st
      else askGroq st)"

text \<open>The effect mirroring the transcript into the input, and the voice-stop effect.\<close>

definition mirror_effect :: "tutor \<Rightarrow> tutor" where
  "mirror_effect st = (if listening st then st\<lparr>input := transcript st\<rparr> else st)"

definition voice_stop_effect :: "tutor \<Rightarrow> tutor" where
  "voice_stop_effect st =
     (if \<not> listening st \<and> js_trim (transcript st) \<noteq> [] then askGroq st else st)"

text \<open>
  The speech platform's events: a new transcript while listening, recognition ending
  without the button, and the utterance being spoken coming to its end.
\<close>

definition heard :: "string \<Rightarrow> tutor \<Rightarrow> tutor" where
  "heard t st = (if listening st then st\<lparr>transcript := t\<rparr> else st)"

definition recognition_ended :: "tutor \<Rightarrow> tutor" where
  "recognition_ended st = st\<lparr>listening := False\<rparr>"

definition utterance_ended :: "tutor \<Rightarrow> tutor" where
  "utterance_ended st = st\<lparr>utterances := tl (utterances st)\<rparr>"

text \<open>
  Everything that can happen to the component. The user's actions need the rendered
  view; a fetch settles only when an \<open>askGroq\<close> call is waiting for one. Effects are
  actions of their own: every order in which React runs them is a sequence of actions.
\<close>

datatype action =
    MountEffect
  | MountCleanup
  | SelectImage "image_file list"
  | Change string
  | KeyDown string
  | ClickVoice
  | ClickAsk
  | MirrorEffect
  | VoiceStopEffect
  | Heard string
  | RecognitionEnded
  | UtteranceEnded
  | FetchSettled fetch_outcome

fun act :: "action \<Rightarrow> tutor \<Rightarrow> tutor" where
  "act MountEffect st = mount_effect st"
| "act MountCleanup st = mount_cleanup st"
| "act (SelectImage files) st = (if view_rendered st then handleImageUpload files st else st)"
| "act (Change v) st = (if view_rendered st then onChange v st else st)"
| "act (KeyDown key) st = (if view_rendered st then onKeyDown key st else st)"
| "act ClickVoice st = (if view_rendered st then onClick_voice st else st)"
| "act ClickAsk st = (if view_rendered st then onClick_ask st else st)"
| "act MirrorEffect st = mirror_effect st"
| "act VoiceStopEffect st = voice_stop_effect st"
| "act (Heard t) st = heard t st"
| "act RecognitionEnded st = recognition_ended st"
| "act UtteranceEnded st = utterance_ended st"
| "act (FetchSettled outcome) st = (if awaiting st = 0 then st else askGroq_settled outcome st)"

fun run :: "action list \<Rightarrow> tutor \<Rightarrow> tutor" where
  "run [] st = st"
| "run (a # as) st = run as (act a st)"

section \<open>Concrete inputs\<close>

subsection \<open>Requests, parsers and providers for the Relay\<close>

definition parsed_as :: "'p \<Rightarrow> form_entry option \<Rightarrow> string + 'p" where
  "parsed_as ms entry = Inr ms"

definition unparseable :: "string \<Rightarrow> form_entry option \<Rightarrow> string + chat_message list" where
  "unparseable e entry = Inl e"

definition provider_returns :: "completion \<Rightarrow> 'p provider_call \<Rightarrow> string + completion" where
  "provider_returns c call = Inr c"

definition provider_throws :: "string \<Rightarrow> 'p provider_call \<Rightarrow> string + completion" where
  "provider_throws e call = Inl e"

definition text_form :: request where
  "text_form =
     \<lparr>formData = Inr \<lparr>messages_entry = Some (FormString ''[]''), image_entry = None\<rparr>\<rparr>"

definition paris_completion :: completion where
  "paris_completion =
     \<lparr>choices = Some [\<lparr>message = Some \<lparr>text_content = Some ''Paris''\<rparr>\<rparr>],
      usage = Some \<lparr>total_tokens = 12\<rparr>, model = ''m1''\<rparr>"

definition empty_text_completion :: completion where
  "empty_text_completion =
     \<lparr>choices = Some [\<lparr>message = Some \<lparr>text_content = Some ''''\<rparr>\<rparr>],
      usage = Some \<lparr>total_tokens = 12\<rparr>, model = ''m1''\<rparr>"

subsection \<open>States of the Controller\<close>

text \<open>A question typed into the field, with an image attached.\<close>

definition typed_state :: tutor where
  "typed_state =
     run [MountEffect, SelectImage [File ''cat.png'' [137, 80]], Change ''capital of France?'']
       (initial True True)"

text \<open>Voice capture running, the transcript mirrored into the field.\<close>

definition dictating_state :: tutor where
  "dictating_state =
     run [MountEffect, ClickVoice, Heard ''hello'', MirrorEffect] (initial True True)"

text \<open>The same, after the user has replaced the text of the field.\<close>

definition typed_over_state :: tutor where
  "typed_over_state =
     run [MountEffect, ClickVoice, Heard ''hello'', MirrorEffect, Change ''bye'']
       (initial True True)"

text \<open>
  A turn submitted with the button while voice capture runs; more speech is mirrored
  into the field during the turn, and recognition then ends by itself (the voice button
  is disabled while loading).
\<close>

definition in_flight_state :: tutor where
  "in_flight_state =
     run [MountEffect, ClickVoice, Heard ''first'', MirrorEffect, ClickAsk,
          Heard ''first second'', MirrorEffect, RecognitionEnded]
       (initial True True)"

text \<open>A voice turn answered by the Relay, after which the user types one letter.\<close>

definition typing_after_voice_state :: tutor where
  "typing_after_voice_state =
     run [MountEffect, ClickVoice, Heard ''hello'', MirrorEffect, ClickVoice, VoiceStopEffect,
          FetchSettled (Rejected ''Failed to fetch''), Change ''x'']
       (initial True True)"

section \<open>Properties of the Completion Relay\<close>

lemma js_trim_gsk: "js_trim ''gsk_live'' = ''gsk_live''"
  by (simp add: js_trim_def js_whitespace_def)

text \<open>
  C3, as the code has it. When the credential is configured, the form is read, its
  messages parse, the image (if any) is read and the provider returns a completion \<open>c\<close>,
  the Relay answers with status 200 and the body \<open>success: true\<close>, \<open>content\<close>,
  \<open>tokens_used\<close>, \<open>model\<close>, where the content is the first choice's message text, or
  \<open>"No response"\<close> when that text is absent, null or the empty string; the tokens are the
  reported usage total, or 0 when no usage is reported; the model is the provider's.
\<close>

theorem relay_success_reply:
  assumes "js_trim k \<noteq> []"
    and "formData req = Inr fd"
    and "JSON_parse (messages_entry fd) = Inr ms"
    and "read_image (image_entry fd) = Inr img"
    and "create \<lparr>apiKey = js_trim k, timeout = 15000, call_messages = ms,
                 call_model = ''llama3-70b-8192'', temperature = 7 / 10\<rparr> = Inr c"
  shows "reply (POST JSON_parse create (Some k) req) =
     \<lparr>status = 200,
      body = [(''success'', JBool True),
              (''content'', JString (case first_choice_text c of
                                       None \<Rightarrow> ''No response''
                                     | Some t \<Rightarrow> if t = [] then ''No response'' else t)),
              (''tokens_used'',
                 JNumber (case usage c of None \<Rightarrow> 0 | Some u \<Rightarrow> total_tokens u)),
              (''model'', JString (model c))]\<rparr>"
  using assms
  by (simp add: POST_def relay_try_def success_reply_def NextResponse_json_def js_or_str_def
      js_or_num_def reported_total_def split: option.splits)

text \<open>The round trip of the specification: the \<open>Paris\<close> completion.\<close>

theorem relay_success_reply_witness:
  "reply (POST (parsed_as ([]::chat_message list)) (provider_returns paris_completion)
            (Some ''gsk_live'') text_form) =
     \<lparr>status = 200,
      body = [(''success'', JBool True), (''content'', JString ''Paris''),
              (''tokens_used'', JNumber 12), (''model'', JString ''m1'')]\<rparr>"
  using relay_success_reply [of "''gsk_live''" text_form
      "\<lparr>messages_entry = Some (FormString ''[]''), image_entry = None\<rparr>"
      "parsed_as ([]::chat_message list)" "[]" None "provider_returns paris_completion"
      paris_completion]
  by (simp add: js_trim_gsk text_form_def parsed_as_def read_image_def provider_returns_def
      paris_completion_def first_choice_text_def)

text \<open>
  C3 as stated fails where the first choice's text is present and empty: the content of
  the reply is then \<open>"No response"\<close>, not that text.
\<close>

theorem relay_empty_text_counterexample:
  "first_choice_text empty_text_completion = Some '''' \<and>
   reply (POST (parsed_as ([]::chat_message list)) (provider_returns empty_text_completion)
            (Some ''gsk_live'') text_form) \<noteq>
     \<lparr>status = 200,
      body = [(''success'', JBool True), (''content'', JString ''''),
              (''tokens_used'', JNumber 12), (''model'', JString ''m1'')]\<rparr>"
  by (simp add: POST_def relay_try_def success_reply_def NextResponse_json_def js_or_str_def
      js_or_num_def reported_total_def js_trim_gsk text_form_def parsed_as_def read_image_def
      provider_returns_def empty_text_completion_def first_choice_text_def)

text \<open>
  C4, at the missing credential: the body of the configuration-error reply has the keys
  \<open>error\<close> and \<open>details\<close> only. It has no \<open>success\<close> field, which the provider-failure
  reply has.
\<close>

theorem config_error_body_lacks_success:
  "body (reply (POST JSON_parse create None req)) =
     [(''error'', JString ''Server configuration error''),
      (''details'', JString ''API key not configured'')] \<and>
   map_of (body (reply (POST JSON_parse create None req))) ''success'' = None \<and>
   map_of (body (failure_reply e)) ''success'' = Some (JBool False)"
  by (simp add: POST_def config_error_reply_def failure_reply_def NextResponse_json_def)

text \<open>
  C5. With no credential in the environment the Relay answers with the
  configuration-error reply at status 500 and calls the provider not once, whatever the
  request, the parser and the provider are; a provider failure is answered at 502.
\<close>

theorem missing_credential_is_500_without_provider_call:
  "reply (POST JSON_parse create None req) = config_error_reply \<and>
   status (reply (POST JSON_parse create None req)) = 500 \<and>
   provider_calls (POST JSON_parse create None req) = [] \<and>
   status (failure_reply e) = 502 \<and>
   status (reply (POST JSON_parse create None req)) \<noteq> status (failure_reply e)"
  by (simp add: POST_def config_error_reply_def failure_reply_def NextResponse_json_def)

text \<open>A credential of white space only is treated as a missing one.\<close>

lemma blank_credential_is_500:
  "js_trim k = [] \<Longrightarrow>
   POST JSON_parse create (Some k) req = \<lparr>reply = config_error_reply, provider_calls = []\<rparr>"
  by (simp add: POST_def)

text \<open>
  C6. With a configured credential, whatever fails inside the \<open>try\<close> block (reading the
  form, parsing the messages, reading the image, or the provider's call: a network
  error, a timeout or a non-success answer are all errors thrown by that call) is
  answered at status 502 with \<open>success: false\<close>, the fixed error text and the failure's
  message as details. A payload that does not parse gets the same reply as any other
  failure.
\<close>

theorem relay_failure_is_502:
  assumes "js_trim k \<noteq> []"
    and "formData req = Inl e
       \<or> (\<exists>fd. formData req = Inr fd \<and> JSON_parse (messages_entry fd) = Inl e)
       \<or> (\<exists>fd ms. formData req = Inr fd \<and> JSON_parse (messages_entry fd) = Inr ms \<and>
            read_image (image_entry fd) = Inl e)
       \<or> (\<exists>fd ms img. formData req = Inr fd \<and> JSON_parse (messages_entry fd) = Inr ms \<and>
            read_image (image_entry fd) = Inr img \<and>
            create \<lparr>apiKey = js_trim k, timeout = 15000, call_messages = ms,
                    call_model = ''llama3-70b-8192'', temperature = 7 / 10\<rparr> = Inl e)"
  shows "reply (POST JSON_parse create (Some k) req) =
     \<lparr>status = 502,
      body = [(''success'', JBool False), (''error'', JString ''AI processing failed''),
              (''details'', JString e)]\<rparr>"
  using assms
  by (auto simp add: POST_def relay_try_def failure_reply_def NextResponse_json_def)

text \<open>An unparseable payload, and a provider call that times out.\<close>

theorem relay_failure_is_502_witness:
  "reply (POST (unparseable ''Unexpected token'') (provider_returns paris_completion)
            (Some ''gsk_live'') text_form) =
     \<lparr>status = 502,
      body = [(''success'', JBool False), (''error'', JString ''AI processing failed''),
              (''details'', JString ''Unexpected token'')]\<rparr> \<and>
   reply (POST (parsed_as ([]::chat_message list)) (provider_throws ''Request timed out.'')
            (Some ''gsk_live'') text_form) =
     \<lparr>status = 502,
      body = [(''success'', JBool False), (''error'', JString ''AI processing failed''),
              (''details'', JString ''Request timed out.'')]\<rparr>"
  using relay_failure_is_502 [of "''gsk_live''" text_form "''Unexpected token''"
      "unparseable ''Unexpected token''" "provider_returns paris_completion"]
    relay_failure_is_502 [of "''gsk_live''" text_form "''Request timed out.''"
      "parsed_as ([]::chat_message list)" "provider_throws ''Request timed out.''"]
  by (simp add: js_trim_gsk text_form_def parsed_as_def unparseable_def read_image_def
      provider_returns_def provider_throws_def)

section \<open>Properties of the Conversation Controller\<close>

subsection \<open>The concrete states, evaluated\<close>

lemma js_trim_question: "js_trim ''capital of France?'' = ''capital of France?''"
  by (simp add: js_trim_def js_whitespace_def)

lemma js_trim_hello: "js_trim ''hello'' = ''hello''"
  by (simp add: js_trim_def js_whitespace_def)

lemma js_trim_bye: "js_trim ''bye'' = ''bye''"
  by (simp add: js_trim_def js_whitespace_def)

lemma js_trim_first: "js_trim ''first'' = ''first''"
  by (simp add: js_trim_def js_whitespace_def)

lemma js_trim_first_second: "js_trim ''first second'' = ''first second''"
  by (simp add: js_trim_def js_whitespace_def)

lemma js_trim_x: "js_trim ''x'' = ''x''"
  by (simp add: js_trim_def js_whitespace_def)

lemmas handler_defs =
  mount_effect_def mount_cleanup_def view_rendered_def handleImageUpload_def handleVoice_def
  onChange_def onKeyDown_def onClick_voice_def onClick_ask_def mirror_effect_def
  voice_stop_effect_def heard_def recognition_ended_def utterance_ended_def

lemma typed_state_eq:
  "typed_state =
     \<lparr>input = ''capital of France?'', uploadedImage = Some (File ''cat.png'' [137, 80]),
      messages = [], isLoading = False, isMounted = True, transcript = [], listening = False,
      browserSupportsSpeechRecognition = True, hasSpeechSynthesis = True, utterances = [],
      fetches = [], awaiting = 0\<rparr>"
  by (simp add: typed_state_def initial_def handler_defs)

lemma dictating_state_eq:
  "dictating_state =
     \<lparr>input = ''hello'', uploadedImage = None, messages = [], isLoading = False,
      isMounted = True, transcript = ''hello'', listening = True,
      browserSupportsSpeechRecognition = True, hasSpeechSynthesis = True, utterances = [],
      fetches = [], awaiting = 0\<rparr>"
  by (simp add: dictating_state_def initial_def handler_defs)

lemma typed_over_state_eq:
  "typed_over_state =
     \<lparr>input = ''bye'', uploadedImage = None, messages = [], isLoading = False,
      isMounted = True, transcript = ''hello'', listening = True,
      browserSupportsSpeechRecognition = True, hasSpeechSynthesis = True, utterances = [],
      fetches = [], awaiting = 0\<rparr>"
  by (simp add: typed_over_state_def initial_def handler_defs)

lemma in_flight_state_eq:
  "in_flight_state =
     \<lparr>input = ''first second'', uploadedImage = None,
      messages = [\<lparr>role = User, content = ''first'', error = None\<rparr>],
      isLoading = True, isMounted = True, transcript = ''first second'', listening = False,
      browserSupportsSpeechRecognition = True, hasSpeechSynthesis = True, utterances = [],
      fetches = [\<lparr>sent_messages = [\<lparr>role = User, content = ''first'', error = None\<rparr>],
                  sent_image = None\<rparr>],
      awaiting = 1\<rparr>"
  by (simp add: in_flight_state_def initial_def handler_defs askGroq_def js_trim_first Let_def)

subsection \<open>What each operation does to the state\<close>

lemma speak_keeps [simp]:
  "messages (speak t st) = messages st"
  "input (speak t st) = input st"
  "uploadedImage (speak t st) = uploadedImage st"
  "isLoading (speak t st) = isLoading st"
  "isMounted (speak t st) = isMounted st"
  "transcript (speak t st) = transcript st"
  "listening (speak t st) = listening st"
  "fetches (speak t st) = fetches st"
  "awaiting (speak t st) = awaiting st"
  "hasSpeechSynthesis (speak t st) = hasSpeechSynthesis st"
  by (simp_all add: speak_def)

lemma speak_utterances:
  "utterances (speak t st) =
     (if isMounted st \<and> hasSpeechSynthesis st then [\<lparr>spoken = t, rate = 1, pitch = 1\<rparr>]
      else utterances st)"
  by (simp add: speak_def speechSynthesis_speak_def speechSynthesis_cancel_def)

lemma askGroq_submitted:
  "submitted st \<Longrightarrow>
   askGroq st =
     st\<lparr>isLoading := True,
        messages := messages st @ [\<lparr>role = User, content = input st, error = None\<rparr>],
        input := [],
        uploadedImage := None,
        fetches := fetches st @
          [\<lparr>sent_messages = messages st @ [\<lparr>role = User, content = input st, error = None\<rparr>],
            sent_image = uploadedImage st\<rparr>],
        awaiting := Suc (awaiting st)\<rparr>"
  by (simp add: askGroq_def submitted_def Let_def split: option.splits)

lemma askGroq_not_submitted: "\<not> submitted st \<Longrightarrow> askGroq st = st"
  by (auto simp add: askGroq_def submitted_def)

lemma askGroq_settled_messages:
  "messages (askGroq_settled outcome st) =
     messages st @
       [\<lparr>role = Assistant,
         content = (case turn_result outcome of Inl e \<Rightarrow> ''Error: '' @ e | Inr c \<Rightarrow> c),
         error = (case turn_result outcome of Inl e \<Rightarrow> Some True | Inr c \<Rightarrow> None)\<rparr>]"
  by (simp add: askGroq_settled_def Let_def split: sum.splits)

lemma askGroq_settled_keeps [simp]:
  "input (askGroq_settled outcome st) = input st"
  "uploadedImage (askGroq_settled outcome st) = uploadedImage st"
  "fetches (askGroq_settled outcome st) = fetches st"
  "isLoading (askGroq_settled outcome st) = False"
  by (simp_all add: askGroq_settled_def Let_def split: sum.splits)

lemma act_messages_grow: "length (messages st) \<le> length (messages (act a st))"
  by (cases a; cases "submitted st")
     (simp_all add: askGroq_submitted askGroq_not_submitted askGroq_settled_messages
       handler_defs split: list.splits)

text \<open>
  Before the mount the input is empty: in every state the component reaches, a
  non-blank input passes the whole guard of \<open>askGroq\<close>.
\<close>

lemma unmounted_has_no_input:
  "isMounted (run as (initial r s)) \<or>
   (input (run as (initial r s)) = [] \<and> \<not> listening (run as (initial r s)))"
proof -
  have step: "isMounted (act a st) \<or> (input (act a st) = [] \<and> \<not> listening (act a st))"
    if "isMounted st \<or> (input st = [] \<and> \<not> listening st)" for a st
    using that
    by (cases a; cases "submitted st")
       (auto simp add: askGroq_submitted askGroq_not_submitted askGroq_settled_def Let_def
         handler_defs speak_def split: list.splits sum.splits)
  have "isMounted (run as st) \<or> (input (run as st) = [] \<and> \<not> listening (run as st))"
    if "isMounted st \<or> (input st = [] \<and> \<not> listening st)" for st
    using that
  proof (induction as arbitrary: st)
    case Nil
    then show ?case by simp
  next
    case (Cons a as)
    then show ?case using step [of st a] by simp
  qed
  then show ?thesis by (simp add: initial_def)
qed

subsection \<open>History\<close>

text \<open>
  C1. A turn is submitted when \<open>askGroq\<close> is called on a non-blank input in the mounted
  component. It then appends exactly the user's message, and hands \<open>fetch\<close> a request
  that already holds that message. When the fetch settles, in whatever state the
  component then is and whatever the outcome, exactly one assistant message is appended
  (the answer, or the error text) and no request is sent. A turn with nothing in between
  makes the history longer by exactly 2, on success and on failure, and no action of the
  component makes the history shorter.
\<close>

theorem askGroq_turn_appends_two:
  assumes "js_trim (input st) \<noteq> []" and "isMounted st"
  shows "messages (askGroq st) =
      messages st @ [\<lparr>role = User, content = input st, error = None\<rparr>] \<and>
    fetches (askGroq st) = fetches st @
      [\<lparr>sent_messages = messages st @ [\<lparr>role = User, content = input st, error = None\<rparr>],
        sent_image = uploadedImage st\<rparr>] \<and>
    messages (askGroq_settled outcome st') = messages st' @
      [\<lparr>role = Assistant,
        content = (case turn_result outcome of Inl e \<Rightarrow> ''Error: '' @ e | Inr c \<Rightarrow> c),
        error = (case turn_result outcome of Inl e \<Rightarrow> Some True | Inr c \<Rightarrow> None)\<rparr>] \<and>
    fetches (askGroq_settled outcome st') = fetches st' \<and>
    length (messages (turn outcome st)) = length (messages st) + 2 \<and>
    length (messages st') \<le> length (messages (act a st'))"
  using assms
  by (simp add: askGroq_submitted askGroq_settled_messages turn_def act_messages_grow
      submitted_def)

text \<open>A typed question, once with a fetch that fails and once with an answer.\<close>

theorem askGroq_turn_appends_two_witness:
  "messages (turn (Rejected ''Failed to fetch'') typed_state) =
     [\<lparr>role = User, content = ''capital of France?'', error = None\<rparr>,
      \<lparr>role = Assistant, content = ''Error: Failed to fetch'', error = Some True\<rparr>] \<and>
   messages
     (turn (Resolved \<lparr>ok = True, body_text = [],
              body_json = Inr \<lparr>success = True, data_error = None,
                               data_content = Some ''Paris''\<rparr>\<rparr>) typed_state) =
     [\<lparr>role = User, content = ''capital of France?'', error = None\<rparr>,
      \<lparr>role = Assistant, content = ''Paris'', error = None\<rparr>] \<and>
   length (messages typed_state) = 0"
  using askGroq_turn_appends_two
    [of typed_state "Rejected ''Failed to fetch''" typed_state MountEffect]
  by (simp add: typed_state_eq turn_def submitted_def js_trim_question askGroq_submitted
      askGroq_settled_messages turn_result_def js_or_str_def)

subsection \<open>The in-flight flag\<close>

lemma enter_key_ignored_while_loading: "isLoading st \<Longrightarrow> act (KeyDown key) st = st"
  by (simp add: onKeyDown_def)

lemma ask_button_ignored_while_loading: "isLoading st \<Longrightarrow> act ClickAsk st = st"
  by (simp add: onClick_ask_def)

lemma flag_set_while_in_flight:
  "js_trim (input st) \<noteq> [] \<Longrightarrow> isMounted st \<Longrightarrow>
   isLoading (askGroq st) \<and> \<not> isLoading (askGroq_settled outcome st')"
  by (simp add: askGroq_submitted submitted_def)

text \<open>
  C2, at a turn in flight. The Enter key and the submit button do nothing while
  \<open>isLoading\<close> is true, but the voice-stop effect calls \<open>askGroq\<close> without looking at the
  flag: with one turn in flight, the end of recognition appends a second user message
  and sends a second request.
\<close>

theorem voice_stop_effect_submits_while_loading:
  "isLoading in_flight_state \<and> awaiting in_flight_state = 1 \<and>
   messages (act VoiceStopEffect in_flight_state) =
     messages in_flight_state @ [\<lparr>role = User, content = ''first second'', error = None\<rparr>] \<and>
   fetches (act VoiceStopEffect in_flight_state) =
     fetches in_flight_state @
       [\<lparr>sent_messages = [\<lparr>role = User, content = ''first'', error = None\<rparr>,
                           \<lparr>role = User, content = ''first second'', error = None\<rparr>],
         sent_image = None\<rparr>] \<and>
   awaiting (act VoiceStopEffect in_flight_state) = 2 \<and>
   act (KeyDown ''Enter'') in_flight_state = in_flight_state \<and>
   act ClickAsk in_flight_state = in_flight_state"
  by (simp add: in_flight_state_eq voice_stop_effect_def js_trim_first_second askGroq_def
      Let_def onKeyDown_def onClick_ask_def view_rendered_def)

subsection \<open>Voice capture\<close>

text \<open>
  C7 as stated fails when the field no longer holds the transcript: the voice-stop
  effect submits the pending input. Here the transcript is \<open>hello\<close> and the user has
  typed \<open>bye\<close> over it before stopping.
\<close>

theorem voice_stop_typed_over_counterexample:
  "listening typed_over_state \<and> js_trim (transcript typed_over_state) \<noteq> [] \<and>
   transcript typed_over_state = ''hello'' \<and>
   messages (voice_stop_effect (handleVoice typed_over_state)) =
     [\<lparr>role = User, content = ''bye'', error = None\<rparr>] \<and>
   content (last (messages (voice_stop_effect (handleVoice typed_over_state)))) \<noteq>
     transcript typed_over_state"
  by (simp add: typed_over_state_eq voice_stop_effect_def handleVoice_def js_trim_hello
      js_trim_bye askGroq_def Let_def)

text \<open>
  C7, as the code has it. When voice capture stops in the mounted component with a
  non-blank transcript that the pending input still mirrors, the voice-stop effect
  submits one turn: it appends one user message whose content is the transcript and
  sends one request; run again on the state it leaves, the effect submits nothing.
\<close>

theorem voice_stop_submits_mirrored_transcript:
  assumes "listening st" and "isMounted st" and "input st = transcript st"
    and "js_trim (transcript st) \<noteq> []"
  shows "messages (voice_stop_effect (handleVoice st)) =
      messages st @ [\<lparr>role = User, content = transcript st, error = None\<rparr>] \<and>
    fetches (voice_stop_effect (handleVoice st)) =
      fetches st @
        [\<lparr>sent_messages =
            messages st @ [\<lparr>role = User, content = transcript st, error = None\<rparr>],
          sent_image = uploadedImage st\<rparr>] \<and>
    voice_stop_effect (voice_stop_effect (handleVoice st)) =
      voice_stop_effect (handleVoice st)"
proof -
  let ?st = "handleVoice st"
  have stop: "?st = st\<lparr>listening := False\<rparr>"
    using assms by (simp add: handleVoice_def)
  have sub: "submitted ?st"
    using assms by (simp add: stop submitted_def)
  have eff: "voice_stop_effect ?st = askGroq ?st"
    using assms by (simp add: stop voice_stop_effect_def)
  have again: "voice_stop_effect (askGroq ?st) = askGroq ?st"
    by (simp add: voice_stop_effect_def askGroq_submitted [OF sub] askGroq_not_submitted
        submitted_def js_trim_def)
  show ?thesis
    using assms again
    by (simp add: eff askGroq_submitted [OF sub]) (simp add: stop)
qed

theorem voice_stop_submits_mirrored_transcript_witness:
  "listening dictating_state \<and> input dictating_state = ''hello'' \<and>
   messages (voice_stop_effect (handleVoice dictating_state)) =
     [\<lparr>role = User, content = ''hello'', error = None\<rparr>] \<and>
   fetches (voice_stop_effect (handleVoice dictating_state)) =
     [\<lparr>sent_messages = [\<lparr>role = User, content = ''hello'', error = None\<rparr>],
       sent_image = None\<rparr>]"
  using voice_stop_submits_mirrored_transcript [of dictating_state]
  by (simp add: dictating_state_eq js_trim_hello)

text \<open>Recognition that ends by itself leaves the state the button's stop leaves.\<close>

lemma stop_by_button_or_platform: "listening st \<Longrightarrow> handleVoice st = recognition_ended st"
  by (simp add: handleVoice_def recognition_ended_def)

text \<open>
  The transcript is reset only when capture starts again. After a voice turn the
  effect's condition therefore still holds, and when the effect runs again after the next
  change of the input, what has been typed is submitted.
\<close>

lemma typing_after_voice_turn_is_submitted:
  "map content (messages typing_after_voice_state) = [''hello'', ''Error: Failed to fetch''] \<and>
   input typing_after_voice_state = ''x'' \<and>
   map content (messages (act VoiceStopEffect typing_after_voice_state)) =
     [''hello'', ''Error: Failed to fetch'', ''x'']"
  by (simp add: typing_after_voice_state_def initial_def handler_defs askGroq_def
      askGroq_settled_def turn_result_def speak_def js_trim_hello js_trim_x Let_def)

subsection \<open>Pending input and image\<close>

text \<open>
  C8. A submitted turn leaves the pending input empty and the pending image absent as
  soon as it is submitted, whether or not an image was attached; settling the fetch,
  with an answer or with an error, changes neither. So after a turn with nothing in
  between both are empty, whatever the outcome.
\<close>

theorem turn_clears_pending_input_and_image:
  assumes "js_trim (input st) \<noteq> []" and "isMounted st"
  shows "input (askGroq st) = [] \<and> uploadedImage (askGroq st) = None \<and>
    input (askGroq_settled outcome st') = input st' \<and>
    uploadedImage (askGroq_settled outcome st') = uploadedImage st' \<and>
    input (turn outcome st) = [] \<and> uploadedImage (turn outcome st) = None"
  using assms by (simp add: askGroq_submitted turn_def submitted_def)

theorem turn_clears_pending_input_and_image_witness:
  "uploadedImage typed_state = Some (File ''cat.png'' [137, 80]) \<and>
   input (turn (Rejected ''Failed to fetch'') typed_state) = [] \<and>
   uploadedImage (turn (Rejected ''Failed to fetch'') typed_state) = None \<and>
   sent_image (last (fetches (turn (Rejected ''Failed to fetch'') typed_state))) =
     Some (File ''cat.png'' [137, 80])"
  using turn_clears_pending_input_and_image
    [of typed_state "Rejected ''Failed to fetch''" typed_state]
  by (simp add: typed_state_eq turn_def submitted_def js_trim_question askGroq_submitted)

subsection \<open>Speech output\<close>

lemma act_keeps_queue_short:
  "length (utterances st) \<le> 1 \<Longrightarrow> length (utterances (act a st)) \<le> 1"
  by (cases a; cases "submitted st")
     (auto simp add: askGroq_submitted askGroq_not_submitted askGroq_settled_def Let_def
       handler_defs speak_utterances speechSynthesis_cancel_def split: list.splits sum.splits)

lemma run_keeps_queue_short:
  "length (utterances st) \<le> 1 \<Longrightarrow> length (utterances (run as st)) \<le> 1"
proof (induction as arbitrary: st)
  case Nil
  then show ?case by simp
next
  case (Cons a as)
  from Cons.prems have "length (utterances (act a st)) \<le> 1"
    by (rule act_keeps_queue_short)
  then have "length (utterances (run as (act a st))) \<le> 1"
    by (rule Cons.IH)
  then show ?case by simp
qed

text \<open>
  C9. Where \<open>speak\<close> speaks at all (mounted, with a synthesiser), it cancels the queue
  and then speaks: the queue it leaves holds the new utterance alone, whatever was
  playing or waiting. Otherwise it leaves the queue as it is. So in every state the
  component reaches the synthesiser's queue holds at most one utterance.
\<close>

theorem speak_cancels_before_speaking:
  "utterances (speak txt st) =
     (if isMounted st \<and> hasSpeechSynthesis st
      then speechSynthesis_speak \<lparr>spoken = txt, rate = 1, pitch = 1\<rparr>
             (speechSynthesis_cancel (utterances st))
      else utterances st) \<and>
   speechSynthesis_speak \<lparr>spoken = txt, rate = 1, pitch = 1\<rparr>
     (speechSynthesis_cancel (utterances st)) = [\<lparr>spoken = txt, rate = 1, pitch = 1\<rparr>] \<and>
   length (utterances (run as (initial r s))) \<le> 1"
  using run_keeps_queue_short [of "initial r s" as]
  by (simp add: speak_def speechSynthesis_speak_def speechSynthesis_cancel_def initial_def)

subsection \<open>The error flag\<close>

lemma act_appends:
  "\<exists>new. messages (act a st) = messages st @ new \<and>
     list_all (\<lambda>m. role m = User \<longrightarrow> error m = None) new \<and>
     list_all (\<lambda>m. error m = Some True \<longrightarrow>
                 role m = Assistant \<and>
                 (\<exists>outcome e. a = FetchSettled outcome \<and> turn_result outcome = Inl e)) new"
  by (cases a; cases "submitted st")
     (auto simp add: askGroq_submitted askGroq_not_submitted askGroq_settled_messages
       handler_defs split: list.splits sum.splits)

lemma run_keeps_users_unflagged:
  "list_all (\<lambda>m. role m = User \<longrightarrow> error m = None) (messages st) \<Longrightarrow>
   list_all (\<lambda>m. role m = User \<longrightarrow> error m = None) (messages (run as st))"
proof (induction as arbitrary: st)
  case Nil
  then show ?case by simp
next
  case (Cons a as)
  obtain new where "messages (act a st) = messages st @ new"
    and "list_all (\<lambda>m. role m = User \<longrightarrow> error m = None) new"
    using act_appends [of a st] by blast
  with Cons.prems
  have "list_all (\<lambda>m. role m = User \<longrightarrow> error m = None) (messages (act a st))"
    by simp
  then show ?case using Cons.IH by simp
qed

text \<open>
  C10. Whatever an action of the component appends to the history, a message with the
  error flag set to true has the role assistant and is appended by a settled fetch on
  its failure path, and a user message carries no error flag. In every history the
  component reaches, the messages of the user have no flag and the flagged ones are the
  assistant's.
\<close>

theorem error_flag_only_on_failed_turns:
  "(\<exists>new. messages (act a st) = messages st @ new \<and>
      list_all (\<lambda>m. role m = User \<longrightarrow> error m = None) new \<and>
      list_all (\<lambda>m. error m = Some True \<longrightarrow>
                  role m = Assistant \<and>
                  (\<exists>outcome e. a = FetchSettled outcome \<and> turn_result outcome = Inl e)) new) \<and>
   list_all (\<lambda>m. (role m = User \<longrightarrow> error m = None) \<and>
                 (error m = Some True \<longrightarrow> role m = Assistant))
     (messages (run as (initial r s)))"
proof -
  have "list_all (\<lambda>m. role m = User \<longrightarrow> error m = None) (messages (run as (initial r s)))"
    by (rule run_keeps_users_unflagged) (simp add: initial_def)
  then have "list_all (\<lambda>m. (role m = User \<longrightarrow> error m = None) \<and>
                 (error m = Some True \<longrightarrow> role m = Assistant))
     (messages (run as (initial r s)))"
    by (rule list.pred_mono_strong) (auto intro: role.exhaust)
  with act_appends [of a st] show ?thesis by blast
qed

text \<open>A fetch that fails: the one flagged message is the assistant's.\<close>

theorem error_flag_only_on_failed_turns_witness:
  "messages (act (FetchSettled (Rejected ''Failed to fetch'')) (askGroq typed_state)) =
     messages (askGroq typed_state) @
       [\<lparr>role = Assistant, content = ''Error: Failed to fetch'', error = Some True\<rparr>] \<and>
   messages (run [MountEffect, Change ''capital of France?'', ClickAsk,
                  FetchSettled (Rejected ''Failed to fetch'')] (initial True True)) =
     [\<lparr>role = User, content = ''capital of France?'', error = None\<rparr>,
      \<lparr>role = Assistant, content = ''Error: Failed to fetch'', error = Some True\<rparr>]"
  using error_flag_only_on_failed_turns
    [of "FetchSettled (Rejected ''Failed to fetch'')" "askGroq typed_state"
        "[MountEffect, Change ''capital of France?'', ClickAsk,
          FetchSettled (Rejected ''Failed to fetch'')]" True True]
  by (simp add: typed_state_eq initial_def handler_defs askGroq_def askGroq_settled_def
      turn_result_def speak_def js_trim_question Let_def)

end
